theory Spec2Isabelle
  imports Main "HOL-Library.Code_Target_Numeral"
begin

section \<open>Values decoded from a JSON response\<close>

text \<open>
  A Python float is an IEEE double: a signed zero or finite number, an infinity or a
  NaN. A finite one is kept as sign, mantissa and binary exponent, its value being
  \<open>(-1)^sign * mantissa * 2^exponent\<close>; every double has such a form.
\<close>

datatype pyfloat = Finite bool nat int | PosInf | NegInf | NaN

text \<open>
  What the JSON decoder hands to the code: \<open>None\<close>, \<open>bool\<close>, \<open>int\<close> (unbounded),
  \<open>float\<close>, \<open>str\<close>, \<open>list\<close> and \<open>dict\<close> (string keys, in insertion order).
\<close>

datatype json =
    JNull
  | JBool bool
  | JInt int
  | JFloat pyfloat
  | JStr string
  | JList "json list"
  | JDict "(string \<times> json) list"

datatype py_exception = TypeError | ValueError | OverflowError

text \<open>
  The interpreter's text conversions that the repository calls but does not define:
  the text of a float and of a container (\<open>str\<close> on a float, a list or a dict), and
  the parsing of a string by \<open>int\<close> and by \<open>float\<close>, where \<open>None\<close> stands for the
  \<open>ValueError\<close> of a malformed literal. Every function below that reaches one of them
  takes this record, and every theorem holds whatever they compute.
\<close>

record builtins =
  float_text :: "pyfloat \<Rightarrow> string"
  container_text :: "json \<Rightarrow> string"
  parse_int :: "string \<Rightarrow> int option"
  parse_float :: "string \<Rightarrow> pyfloat option"

subsection \<open>Dictionary access\<close>

text \<open>\<open>d.get(key, dflt)\<close> and \<open>d.get(key)\<close>, whose default is \<open>None\<close>.\<close>

fun dict_get_or :: "(string \<times> json) list \<Rightarrow> string \<Rightarrow> json \<Rightarrow> json" where
  "dict_get_or [] key dflt = dflt"
| "dict_get_or ((k, v) # rest) key dflt = (if k = key then v else dict_get_or rest key dflt)"

definition dict_get :: "(string \<times> json) list \<Rightarrow> string \<Rightarrow> json" where
  "dict_get d key = dict_get_or d key JNull"

text \<open>\<open>d[key] = v\<close>: an existing key keeps its place, a new one goes last.\<close>

fun dict_set :: "(string \<times> json) list \<Rightarrow> string \<Rightarrow> json \<Rightarrow> (string \<times> json) list" where
  "dict_set [] key v = [(key, v)]"
| "dict_set ((k, w) # rest) key v = (if k = key then (k, v) # rest else (k, w) # dict_set rest key v)"

subsection \<open>The built-in conversions\<close>

text \<open>Truth value testing: \<open>bool(val)\<close>, \<open>if val\<close>, \<open>not val\<close>.\<close>

fun truthy :: "json \<Rightarrow> bool" where
  "truthy JNull = False"
| "truthy (JBool b) = b"
| "truthy (JInt n) = (n \<noteq> 0)"
| "truthy (JFloat (Finite s m e)) = (m \<noteq> 0)"
| "truthy (JFloat f) = True"
| "truthy (JStr s) = (s \<noteq> [])"
| "truthy (JList xs) = (xs \<noteq> [])"
| "truthy (JDict kvs) = (kvs \<noteq> [])"

fun is_dict :: "json \<Rightarrow> bool" where
  "is_dict (JDict kvs) = True"
| "is_dict v = False"

fun is_list :: "json \<Rightarrow> bool" where
  "is_list (JList xs) = True"
| "is_list v = False"

text \<open>
  Decimal text of an integer, as \<open>str\<close> gives it. The interpreter's configurable
  limit on the number of digits is not modelled: the text exists for every integer.
\<close>

fun digits :: "nat \<Rightarrow> string" where
  "digits n = (if n < 10 then [''0123456789'' ! n]
               else digits (n div 10) @ [''0123456789'' ! (n mod 10)])"

declare digits.simps [simp del]

definition int_text :: "int \<Rightarrow> string" where
  "int_text i = (if i < 0 then CHR ''-'' # digits (nat (- i)) else digits (nat i))"

text \<open>\<open>str(val)\<close>.\<close>

fun py_str :: "builtins \<Rightarrow> json \<Rightarrow> string" where
  "py_str bi JNull = ''None''"
| "py_str bi (JBool b) = (if b then ''True'' else ''False'')"
| "py_str bi (JInt n) = int_text n"
| "py_str bi (JFloat f) = float_text bi f"
| "py_str bi (JStr s) = s"
| "py_str bi (JList xs) = container_text bi (JList xs)"
| "py_str bi (JDict kvs) = container_text bi (JDict kvs)"

text \<open>
  \<open>int(x)\<close> on a float truncates towards zero; it raises \<open>OverflowError\<close> on an
  infinity and \<open>ValueError\<close> on a NaN.
\<close>

fun float_trunc :: "pyfloat \<Rightarrow> py_exception + int" where
  "float_trunc (Finite s m e) =
     (let mag = (if 0 \<le> e then int m * 2 ^ nat e else int m div 2 ^ nat (- e))
      in Inr (if s then - mag else mag))"
| "float_trunc PosInf = Inl OverflowError"
| "float_trunc NegInf = Inl OverflowError"
| "float_trunc NaN = Inl ValueError"

text \<open>\<open>int(val)\<close>: \<open>TypeError\<close> on \<open>None\<close>, a list or a dict.\<close>

fun py_int :: "builtins \<Rightarrow> json \<Rightarrow> py_exception + int" where
  "py_int bi JNull = Inl TypeError"
| "py_int bi (JBool b) = Inr (if b then 1 else 0)"
| "py_int bi (JInt n) = Inr n"
| "py_int bi (JFloat f) = float_trunc f"
| "py_int bi (JStr s) = (case parse_int bi s of None \<Rightarrow> Inl ValueError | Some n \<Rightarrow> Inr n)"
| "py_int bi (JList xs) = Inl TypeError"
| "py_int bi (JDict kvs) = Inl TypeError"

text \<open>
  \<open>float(n)\<close> on an integer rounds to the nearest double, ties to the even mantissa of
  53 bits, and raises \<open>OverflowError\<close> when the rounded value reaches \<open>2^1024\<close>.
\<close>

fun bit_length :: "nat \<Rightarrow> nat" where
  "bit_length n = (if n = 0 then 0 else Suc (bit_length (n div 2)))"

declare bit_length.simps [simp del]

definition float_of_int :: "int \<Rightarrow> py_exception + pyfloat" where
  "float_of_int n =
     (let a = nat \<bar>n\<bar> in
      if a < 2 ^ 53 then Inr (Finite (n < 0) a 0)
      else
        let k = bit_length a - 53;
            q = a div 2 ^ k;
            r = a mod 2 ^ k;
            half = 2 ^ (k - 1);
            q' = (if half < r \<or> (r = half \<and> odd q) then q + 1 else q)
        in if 2 ^ 1024 \<le> q' * 2 ^ k then Inl OverflowError
           else Inr (Finite (n < 0) q' (int k)))"

text \<open>\<open>float(val)\<close>.\<close>

fun py_float :: "builtins \<Rightarrow> json \<Rightarrow> py_exception + pyfloat" where
  "py_float bi JNull = Inl TypeError"
| "py_float bi (JBool b) = Inr (Finite False (if b then 1 else 0) 0)"
| "py_float bi (JInt n) = float_of_int n"
| "py_float bi (JFloat f) = Inr f"
| "py_float bi (JStr s) = (case parse_float bi s of None \<Rightarrow> Inl ValueError | Some f \<Rightarrow> Inr f)"
| "py_float bi (JList xs) = Inl TypeError"
| "py_float bi (JDict kvs) = Inl TypeError"

section \<open>Coercion helpers (linear/request.py)\<close>

text \<open>\<open>_str(val, default)\<close>: \<open>str(val) if val is not None else default\<close>.\<close>

definition str_coerce :: "builtins \<Rightarrow> json \<Rightarrow> string \<Rightarrow> string" where
  "str_coerce bi val dflt = (case val of JNull \<Rightarrow> dflt | _ \<Rightarrow> py_str bi val)"

text \<open>
  \<open>_int(val, default)\<close>: the default on \<open>None\<close>; otherwise \<open>int(val)\<close>, where the
  handler turns \<open>TypeError\<close> and \<open>ValueError\<close> into the default and lets any other
  exception through.
\<close>

definition int_coerce :: "builtins \<Rightarrow> json \<Rightarrow> int \<Rightarrow> py_exception + int" where
  "int_coerce bi val dflt =
     (case val of
        JNull \<Rightarrow> Inr dflt
      | _ \<Rightarrow> (case py_int bi val of
                Inr n \<Rightarrow> Inr n
              | Inl TypeError \<Rightarrow> Inr dflt
              | Inl ValueError \<Rightarrow> Inr dflt
              | Inl OverflowError \<Rightarrow> Inl OverflowError))"

text \<open>\<open>_float(val, default)\<close>: the same shape around \<open>float(val)\<close>.\<close>

definition float_coerce :: "builtins \<Rightarrow> json \<Rightarrow> pyfloat \<Rightarrow> py_exception + pyfloat" where
  "float_coerce bi val dflt =
     (case val of
        JNull \<Rightarrow> Inr dflt
      | _ \<Rightarrow> (case py_float bi val of
                Inr f \<Rightarrow> Inr f
              | Inl TypeError \<Rightarrow> Inr dflt
              | Inl ValueError \<Rightarrow> Inr dflt
              | Inl OverflowError \<Rightarrow> Inl OverflowError))"

text \<open>\<open>_opt_str(val)\<close>: \<open>str(val) if val is not None else None\<close>.\<close>

definition opt_str :: "builtins \<Rightarrow> json \<Rightarrow> string option" where
  "opt_str bi val = (case val of JNull \<Rightarrow> None | _ \<Rightarrow> Some (py_str bi val))"

text \<open>\<open>_bool(val, default)\<close>: \<open>bool(val) if val is not None else default\<close>.\<close>

definition bool_coerce :: "json \<Rightarrow> bool \<Rightarrow> bool" where
  "bool_coerce val dflt = (case val of JNull \<Rightarrow> dflt | _ \<Rightarrow> truthy val)"

text \<open>\<open>_nested_str(obj, key)\<close>: \<open>_opt_str(obj.get(key))\<close> on a dict, else \<open>None\<close>.\<close>

definition nested_str :: "builtins \<Rightarrow> json \<Rightarrow> string \<Rightarrow> string option" where
  "nested_str bi obj key = (case obj of JDict d \<Rightarrow> opt_str bi (dict_get d key) | _ \<Rightarrow> None)"

section \<open>Result records (linear/types.py)\<close>

text \<open>\<open>LinearResult\<close>: \<open>data\<close> and \<open>error\<close> default to \<open>None\<close>.\<close>

record linear_result =
  success :: bool
  data :: json
  error :: "string option"

record workflow_state_info =
  ws_id :: string
  ws_name :: string
  ws_type :: string
  ws_color :: "string option"
  ws_position :: pyfloat

record issue_info =
  iss_id :: string
  iss_identifier :: string
  iss_title :: string
  iss_description :: "string option"
  iss_state :: "string option"
  iss_priority :: int
  iss_assignee :: "string option"
  iss_labels :: "string list"
  iss_created_at :: "string option"
  iss_updated_at :: "string option"

record comment_info =
  comment_id :: string
  comment_body :: string
  comment_user :: "string option"
  comment_created_at :: "string option"

record issue_context_info =
  ctx_issue :: issue_info
  ctx_comments :: "comment_info list"
  ctx_states :: "workflow_state_info list"

section \<open>The transport collaborator\<close>

text \<open>
  The connection descriptor of linear/config.py, the request the code builds and the
  response object the collaborator returns: \<open>resp.success\<close>, \<open>resp.response\<close>
  (\<open>None\<close> or an object with a \<open>body\<close>) and \<open>resp.error\<close> (\<open>None\<close> or an
  object with a \<open>message\<close>).
\<close>

record connection =
  conn_name :: string
  conn_token_secret :: string
  conn_base_url :: string
  conn_auth_header_format :: string

definition linear :: connection where
  "linear = \<lparr>conn_name = ''linear-mcp'', conn_token_secret = ''LINEAR_ACCESS_TOKEN'',
              conn_base_url = ''https://api.linear.app'',
              conn_auth_header_format = ''Bearer {api_key}''\<rparr>"

datatype http_method = POST

record http_request =
  req_method :: http_method
  req_path :: string
  req_body :: "(string \<times> json) list"
  req_headers :: "(string \<times> string) list option"

record http_response =
  resp_body :: json

record dispatch_error =
  err_message :: string

record dispatch_response =
  resp_success :: bool
  resp_response :: "http_response option"
  resp_error :: "dispatch_error option"

text \<open>
  The only effect of the code is the request it sends. The state threaded through the
  tools is the list of requests sent so far; the collaborator is any function that
  answers a request, given the connection and what was sent before.
\<close>

type_synonym sent = "(connection \<times> http_request) list"

type_synonym transport = "sent \<Rightarrow> connection \<Rightarrow> http_request \<Rightarrow> dispatch_response"

text \<open>\<open>await ctx.dispatch(conn, req)\<close>: one request goes out, its answer comes back.\<close>

definition dispatch :: "transport \<Rightarrow> connection \<Rightarrow> http_request \<Rightarrow> sent \<Rightarrow> dispatch_response \<times> sent" where
  "dispatch tr conn req log = (tr log conn req, log @ [(conn, req)])"

section \<open>GraphQL dispatch (linear/request.py)\<close>

text \<open>
  The request \<open>graphql\<close> builds: the body holds the query and, when the variables are
  a non-empty dict, the variables; the header is there when \<open>signed_url_ttl\<close> is given.
\<close>

definition graphql_request :: "string \<Rightarrow> (string \<times> json) list option \<Rightarrow> int option \<Rightarrow> http_request" where
  "graphql_request query variables signed_url_ttl =
     (let body = [(''query'', JStr query)];
          body = (case variables of
                    None \<Rightarrow> body
                  | Some vs \<Rightarrow> if truthy (JDict vs) then dict_set body ''variables'' (JDict vs) else body);
          headers = (case signed_url_ttl of
                       None \<Rightarrow> None
                     | Some ttl \<Rightarrow> Some [(''public-file-urls-expire-in'', int_text ttl)])
      in \<lparr>req_method = POST, req_path = ''/graphql'', req_body = body, req_headers = headers\<rparr>)"

text \<open>
  What \<open>graphql\<close> makes of the answer. The test \<open>errors and isinstance(errors, list)\<close>
  holds exactly of a list with a first element, which \<open>errors[0]\<close> then reads.
\<close>

definition graphql_outcome :: "builtins \<Rightarrow> dispatch_response \<Rightarrow> linear_result" where
  "graphql_outcome bi resp =
     (case (resp_success resp, resp_response resp) of
        (True, Some r) \<Rightarrow>
          (case resp_body r of
             JDict resp_dict \<Rightarrow>
               (case dict_get resp_dict ''errors'' of
                  JList (first # others) \<Rightarrow>
                    (let msg = (case first of
                                  JDict e \<Rightarrow> dict_get_or e ''message'' (JStr ''GraphQL error'')
                                | _ \<Rightarrow> JStr ''GraphQL error'')
                     in \<lparr>success = False, data = JNull, error = Some (py_str bi msg)\<rparr>)
                | _ \<Rightarrow> \<lparr>success = True, data = dict_get resp_dict ''data'', error = None\<rparr>)
           | raw_body \<Rightarrow> \<lparr>success = True, data = raw_body, error = None\<rparr>)
      | _ \<Rightarrow>
          \<lparr>success = False, data = JNull,
           error = Some (case resp_error resp of
                           Some e \<Rightarrow> err_message e
                         | None \<Rightarrow> ''Request failed'')\<rparr>)"

definition graphql :: "builtins \<Rightarrow> transport \<Rightarrow> string \<Rightarrow> (string \<times> json) list option \<Rightarrow> int option \<Rightarrow> sent \<Rightarrow> linear_result \<times> sent" where
  "graphql bi tr query variables signed_url_ttl log =
     (case dispatch tr linear (graphql_request query variables signed_url_ttl) log of
        (resp, log') \<Rightarrow> (graphql_outcome bi resp, log'))"

section \<open>Node parsers (tools/issues.py, tools/compound.py)\<close>

text \<open>
  The comprehension over the label nodes, the same text in both modules:
  \<open>[_str(node.get("name")) for node in nodes if isinstance(node, dict) and node.get("name")]\<close>.
\<close>

fun label_names :: "builtins \<Rightarrow> json list \<Rightarrow> string list" where
  "label_names bi [] = []"
| "label_names bi (node # rest) =
     (case node of
        JDict d \<Rightarrow>
          if truthy (dict_get d ''name'')
          then str_coerce bi (dict_get d ''name'') [] # label_names bi rest
          else label_names bi rest
      | _ \<Rightarrow> label_names bi rest)"

text \<open>\<open>_parse_issue\<close> of tools/issues.py. Of the field coercions only \<open>_int\<close> can raise.\<close>

definition parse_issue :: "builtins \<Rightarrow> (string \<times> json) list \<Rightarrow> py_exception + issue_info" where
  "parse_issue bi raw =
     (let state_node = dict_get raw ''state'';
          assignee_node = dict_get raw ''assignee'';
          label_nodes = dict_get_or raw ''labels'' (JDict []);
          labels = (case label_nodes of
                      JDict ln \<Rightarrow>
                        (case dict_get_or ln ''nodes'' (JList []) of
                           JList nodes \<Rightarrow> label_names bi nodes
                         | _ \<Rightarrow> [])
                    | _ \<Rightarrow> [])
      in case int_coerce bi (dict_get raw ''priority'') 0 of
           Inl e \<Rightarrow> Inl e
         | Inr p \<Rightarrow>
             Inr \<lparr>iss_id = str_coerce bi (dict_get raw ''id'') [],
                  iss_identifier = str_coerce bi (dict_get raw ''identifier'') [],
                  iss_title = str_coerce bi (dict_get raw ''title'') [],
                  iss_description = opt_str bi (dict_get raw ''description''),
                  iss_state = nested_str bi state_node ''name'',
                  iss_priority = p,
                  iss_assignee = nested_str bi assignee_node ''name'',
                  iss_labels = labels,
                  iss_created_at = opt_str bi (dict_get raw ''createdAt''),
                  iss_updated_at = opt_str bi (dict_get raw ''updatedAt'')\<rparr>)"

text \<open>\<open>_parse_issue\<close> of tools/compound.py, which repeats the function rather than import it.\<close>

definition compound_parse_issue :: "builtins \<Rightarrow> (string \<times> json) list \<Rightarrow> py_exception + issue_info" where
  "compound_parse_issue bi raw =
     (let state_node = dict_get raw ''state'';
          assignee_node = dict_get raw ''assignee'';
          label_nodes = dict_get_or raw ''labels'' (JDict []);
          labels = (case label_nodes of
                      JDict ln \<Rightarrow>
                        (case dict_get_or ln ''nodes'' (JList []) of
                           JList nodes \<Rightarrow> label_names bi nodes
                         | _ \<Rightarrow> [])
                    | _ \<Rightarrow> [])
      in case int_coerce bi (dict_get raw ''priority'') 0 of
           Inl e \<Rightarrow> Inl e
         | Inr p \<Rightarrow>
             Inr \<lparr>iss_id = str_coerce bi (dict_get raw ''id'') [],
                  iss_identifier = str_coerce bi (dict_get raw ''identifier'') [],
                  iss_title = str_coerce bi (dict_get raw ''title'') [],
                  iss_description = opt_str bi (dict_get raw ''description''),
                  iss_state = nested_str bi state_node ''name'',
                  iss_priority = p,
                  iss_assignee = nested_str bi assignee_node ''name'',
                  iss_labels = labels,
                  iss_created_at = opt_str bi (dict_get raw ''createdAt''),
                  iss_updated_at = opt_str bi (dict_get raw ''updatedAt'')\<rparr>)"

text \<open>\<open>_parse_comment\<close>: every coercion it uses is total.\<close>

definition parse_comment :: "builtins \<Rightarrow> (string \<times> json) list \<Rightarrow> comment_info" where
  "parse_comment bi raw =
     \<lparr>comment_id = str_coerce bi (dict_get raw ''id'') [],
      comment_body = str_coerce bi (dict_get raw ''body'') [],
      comment_user = nested_str bi (dict_get raw ''user'') ''name'',
      comment_created_at = opt_str bi (dict_get raw ''createdAt'')\<rparr>"

text \<open>\<open>_parse_state\<close>: \<open>_float\<close> can raise. The default position is \<open>0.0\<close>.\<close>

definition parse_state :: "builtins \<Rightarrow> (string \<times> json) list \<Rightarrow> py_exception + workflow_state_info" where
  "parse_state bi raw =
     (case float_coerce bi (dict_get raw ''position'') (Finite False 0 0) of
        Inl e \<Rightarrow> Inl e
      | Inr pos \<Rightarrow>
          Inr \<lparr>ws_id = str_coerce bi (dict_get raw ''id'') [],
               ws_name = str_coerce bi (dict_get raw ''name'') [],
               ws_type = str_coerce bi (dict_get raw ''type'') [],
               ws_color = opt_str bi (dict_get raw ''color''),
               ws_position = pos\<rparr>)"

section \<open>Tools\<close>

text \<open>
  A tool returns a record or a diagnostic text, unless an exception escapes it:
  \<open>Inl e\<close> is the exception, \<open>Inr (Inl msg)\<close> the text, \<open>Inr (Inr r)\<close> the record.
\<close>

type_synonym 'a tool_result = "py_exception + (string + 'a)"

abbreviation Raised :: "py_exception \<Rightarrow> 'a tool_result" where
  "Raised e \<equiv> Inl e"

abbreviation Diagnostic :: "string \<Rightarrow> 'a tool_result" where
  "Diagnostic msg \<equiv> Inr (Inl msg)"

abbreviation Returned :: "'a \<Rightarrow> 'a tool_result" where
  "Returned r \<equiv> Inr (Inr r)"

text \<open>\<open>response.error or fallback\<close>: the fallback replaces \<open>None\<close> and the empty text.\<close>

definition error_or :: "string option \<Rightarrow> string \<Rightarrow> string" where
  "error_or err fallback = (case err of None \<Rightarrow> fallback | Some e \<Rightarrow> if e = [] then fallback else e)"

text \<open>
  \<open>for n in v\<close>: a list gives its elements, a string its characters, a dict its keys;
  \<open>None\<close>, a bool or a number is not iterable and raises \<open>TypeError\<close>.
\<close>

fun py_iter :: "json \<Rightarrow> py_exception + json list" where
  "py_iter (JList xs) = Inr xs"
| "py_iter (JStr s) = Inr (map (\<lambda>c. JStr [c]) s)"
| "py_iter (JDict kvs) = Inr (map (\<lambda>kv. JStr (fst kv)) kvs)"
| "py_iter v = Inl TypeError"

text \<open>\<open>[_parse_comment(n) for n in comment_nodes if isinstance(n, dict)]\<close>, once iterable.\<close>

fun parse_comment_nodes :: "builtins \<Rightarrow> json list \<Rightarrow> comment_info list" where
  "parse_comment_nodes bi [] = []"
| "parse_comment_nodes bi (n # ns) =
     (case n of
        JDict d \<Rightarrow> parse_comment bi d # parse_comment_nodes bi ns
      | _ \<Rightarrow> parse_comment_nodes bi ns)"

text \<open>\<open>[_parse_state(n) for n in state_nodes if isinstance(n, dict)]\<close>: the first exception ends it.\<close>

fun parse_state_nodes :: "builtins \<Rightarrow> json list \<Rightarrow> py_exception + workflow_state_info list" where
  "parse_state_nodes bi [] = Inr []"
| "parse_state_nodes bi (n # ns) =
     (case n of
        JDict d \<Rightarrow>
          (case parse_state bi d of
             Inl e \<Rightarrow> Inl e
           | Inr s \<Rightarrow> (case parse_state_nodes bi ns of Inl e \<Rightarrow> Inl e | Inr ss \<Rightarrow> Inr (s # ss)))
      | _ \<Rightarrow> parse_state_nodes bi ns)"

text \<open>The query texts, as the modules spell them.\<close>

definition ISSUE_FIELDS :: string where
  "ISSUE_FIELDS =
     ''\<newline>'' @
     ''    id identifier title priority createdAt updatedAt\<newline>'' @
     ''    state { name }\<newline>'' @
     ''    assignee { name }\<newline>'' @
     ''    labels { nodes { name } }\<newline>''"

definition issue_create_query :: string where
  "issue_create_query =
     ''\<newline>'' @
     ''    mutation IssueCreate($input: IssueCreateInput!) {\<newline>'' @
     ''        issueCreate(input: $input) {\<newline>'' @
     ''            success\<newline>'' @
     ''            issue { '' @
     ISSUE_FIELDS @
     '' }\<newline>'' @
     ''        }\<newline>'' @
     ''    }\<newline>'' @
     ''    ''"

definition issue_update_query :: string where
  "issue_update_query =
     ''\<newline>'' @
     ''    mutation IssueUpdate($id: String!, $input: IssueUpdateInput!) {\<newline>'' @
     ''        issueUpdate(id: $id, input: $input) {\<newline>'' @
     ''            success\<newline>'' @
     ''            issue { '' @
     ISSUE_FIELDS @
     '' }\<newline>'' @
     ''        }\<newline>'' @
     ''    }\<newline>'' @
     ''    ''"

definition issue_context_query :: string where
  "issue_context_query =
     ''\<newline>'' @
     ''    query IssueContext($id: String!) {\<newline>'' @
     ''        issue(id: $id) {\<newline>'' @
     ''            id identifier title description priority createdAt updatedAt\<newline>'' @
     ''            state { name }\<newline>'' @
     ''            assignee { name }\<newline>'' @
     ''            labels { nodes { name } }\<newline>'' @
     ''            comments(first: 50) {\<newline>'' @
     ''                nodes {\<newline>'' @
     ''                    id body createdAt\<newline>'' @
     ''                    user { name }\<newline>'' @
     ''                }\<newline>'' @
     ''            }\<newline>'' @
     ''            team {\<newline>'' @
     ''                states {\<newline>'' @
     ''                    nodes { id name type color position }\<newline>'' @
     ''                }\<newline>'' @
     ''            }\<newline>'' @
     ''        }\<newline>'' @
     ''    }\<newline>'' @
     ''    ''"


text \<open>\<open>linear_issue_context(issue_id)\<close> of tools/compound.py.\<close>

definition linear_issue_context :: "builtins \<Rightarrow> transport \<Rightarrow> string \<Rightarrow> sent \<Rightarrow> issue_context_info tool_result \<times> sent" where
  "linear_issue_context bi tr issue_id log =
     (case graphql bi tr issue_context_query (Some [(''id'', JStr issue_id)]) None log of
        (response, log') \<Rightarrow>
          (if \<not> success response
           then Diagnostic (error_or (error response) ''Failed to fetch issue context'')
           else
             case data response of
               JDict data_dict \<Rightarrow>
                 (case dict_get data_dict ''issue'' of
                    JDict issue_data \<Rightarrow>
                      (case compound_parse_issue bi issue_data of
                         Inl e \<Rightarrow> Raised e
                       | Inr issue \<Rightarrow>
                           (let comments_data = dict_get_or issue_data ''comments'' (JDict []);
                                comment_nodes = (case comments_data of
                                                   JDict c \<Rightarrow> dict_get_or c ''nodes'' (JList [])
                                                 | _ \<Rightarrow> JList [])
                            in case py_iter comment_nodes of
                                 Inl e \<Rightarrow> Raised e
                               | Inr cns \<Rightarrow>
                                   (let comments = parse_comment_nodes bi cns;
                                        team_data = dict_get_or issue_data ''team'' (JDict []);
                                        states_data = (case team_data of
                                                         JDict t \<Rightarrow> dict_get_or t ''states'' (JDict [])
                                                       | _ \<Rightarrow> JDict []);
                                        state_nodes = (case states_data of
                                                         JDict s \<Rightarrow> dict_get_or s ''nodes'' (JList [])
                                                       | _ \<Rightarrow> JList [])
                                    in case py_iter state_nodes of
                                         Inl e \<Rightarrow> Raised e
                                       | Inr sns \<Rightarrow>
                                           (case parse_state_nodes bi sns of
                                              Inl e \<Rightarrow> Raised e
                                            | Inr states \<Rightarrow>
                                                Returned \<lparr>ctx_issue = issue, ctx_comments = comments,
                                                          ctx_states = states\<rparr>))))
                  | _ \<Rightarrow> Diagnostic ''Issue not found'')
             | _ \<Rightarrow> Diagnostic ''Unexpected response'',
           log'))"

text \<open>\<open>if x is not None: input_data[key] = x\<close>.\<close>

definition set_if_given :: "(string \<times> json) list \<Rightarrow> string \<Rightarrow> json option \<Rightarrow> (string \<times> json) list" where
  "set_if_given d key x = (case x of None \<Rightarrow> d | Some v \<Rightarrow> dict_set d key v)"

definition str_list :: "string list \<Rightarrow> json" where
  "str_list xs = JList (map JStr xs)"

text \<open>The \<open>input_data\<close> dict that \<open>linear_create_issue\<close> fills before it dispatches.\<close>

definition create_issue_input ::
  "string \<Rightarrow> string \<Rightarrow> string option \<Rightarrow> string option \<Rightarrow> string option \<Rightarrow>
   int option \<Rightarrow> string list option \<Rightarrow> string option \<Rightarrow> string option \<Rightarrow> int option \<Rightarrow>
   string option \<Rightarrow> string option \<Rightarrow> (string \<times> json) list" where
  "create_issue_input team_id title description assignee_id state_id priority label_ids
       cycle_id project_id estimate create_as_user display_icon_url =
     (let input_data = [(''teamId'', JStr team_id), (''title'', JStr title)];
          input_data = set_if_given input_data ''description'' (map_option JStr description);
          input_data = set_if_given input_data ''assigneeId'' (map_option JStr assignee_id);
          input_data = set_if_given input_data ''stateId'' (map_option JStr state_id);
          input_data = set_if_given input_data ''priority'' (map_option JInt priority);
          input_data = set_if_given input_data ''labelIds'' (map_option str_list label_ids);
          input_data = set_if_given input_data ''cycleId'' (map_option JStr cycle_id);
          input_data = set_if_given input_data ''projectId'' (map_option JStr project_id);
          input_data = set_if_given input_data ''estimate'' (map_option JInt estimate);
          input_data = set_if_given input_data ''createAsUser'' (map_option JStr create_as_user);
          input_data = set_if_given input_data ''displayIconUrl'' (map_option JStr display_icon_url)
      in input_data)"

text \<open>\<open>linear_create_issue\<close> of tools/issues.py.\<close>

definition linear_create_issue ::
  "builtins \<Rightarrow> transport \<Rightarrow> string \<Rightarrow> string \<Rightarrow> string option \<Rightarrow> string option \<Rightarrow> string option \<Rightarrow>
   int option \<Rightarrow> string list option \<Rightarrow> string option \<Rightarrow> string option \<Rightarrow> int option \<Rightarrow>
   string option \<Rightarrow> string option \<Rightarrow> sent \<Rightarrow> issue_info tool_result \<times> sent" where
  "linear_create_issue bi tr team_id title description assignee_id state_id priority label_ids
       cycle_id project_id estimate create_as_user display_icon_url log =
     (let input_data = create_issue_input team_id title description assignee_id state_id priority
                         label_ids cycle_id project_id estimate create_as_user display_icon_url
      in case graphql bi tr issue_create_query (Some [(''input'', JDict input_data)]) None log of
           (response, log') \<Rightarrow>
             (if \<not> success response
              then Diagnostic (error_or (error response) ''Failed to create issue'')
              else
                case data response of
                  JDict data_dict \<Rightarrow>
                    (case dict_get data_dict ''issueCreate'' of
                       JDict payload \<Rightarrow>
                         if \<not> truthy (dict_get payload ''success'')
                         then Diagnostic ''Issue creation failed''
                         else
                           (case dict_get payload ''issue'' of
                              JDict issue_data \<Rightarrow>
                                (case parse_issue bi issue_data of
                                   Inl e \<Rightarrow> Raised e
                                 | Inr issue \<Rightarrow> Returned issue)
                            | _ \<Rightarrow> Diagnostic ''No issue in response'')
                     | _ \<Rightarrow> Diagnostic ''Issue creation failed'')
                | _ \<Rightarrow> Diagnostic ''Unexpected response'',
              log'))"

text \<open>The \<open>input_data\<close> dict that \<open>linear_update_issue\<close> fills: only the given fields.\<close>

definition update_issue_input ::
  "string option \<Rightarrow> string option \<Rightarrow> string option \<Rightarrow> string option \<Rightarrow>
   int option \<Rightarrow> string list option \<Rightarrow> string option \<Rightarrow> string option \<Rightarrow> int option \<Rightarrow>
   (string \<times> json) list" where
  "update_issue_input title description state_id assignee_id priority label_ids
       cycle_id project_id estimate =
     (let input_data = [];
          input_data = set_if_given input_data ''title'' (map_option JStr title);
          input_data = set_if_given input_data ''description'' (map_option JStr description);
          input_data = set_if_given input_data ''stateId'' (map_option JStr state_id);
          input_data = set_if_given input_data ''assigneeId'' (map_option JStr assignee_id);
          input_data = set_if_given input_data ''priority'' (map_option JInt priority);
          input_data = set_if_given input_data ''labelIds'' (map_option str_list label_ids);
          input_data = set_if_given input_data ''cycleId'' (map_option JStr cycle_id);
          input_data = set_if_given input_data ''projectId'' (map_option JStr project_id);
          input_data = set_if_given input_data ''estimate'' (map_option JInt estimate)
      in input_data)"

text \<open>
  \<open>linear_update_issue\<close> of tools/issues.py: an empty \<open>input_data\<close> returns before
  anything is sent.
\<close>

definition linear_update_issue ::
  "builtins \<Rightarrow> transport \<Rightarrow> string \<Rightarrow> string option \<Rightarrow> string option \<Rightarrow> string option \<Rightarrow> string option \<Rightarrow>
   int option \<Rightarrow> string list option \<Rightarrow> string option \<Rightarrow> string option \<Rightarrow> int option \<Rightarrow>
   sent \<Rightarrow> issue_info tool_result \<times> sent" where
  "linear_update_issue bi tr issue_id title description state_id assignee_id priority label_ids
       cycle_id project_id estimate log =
     (let input_data = update_issue_input title description state_id assignee_id priority
                         label_ids cycle_id project_id estimate
      in if \<not> truthy (JDict input_data)
         then (Diagnostic ''No fields to update'', log)
         else
           case graphql bi tr issue_update_query
                  (Some [(''id'', JStr issue_id), (''input'', JDict input_data)]) None log of
             (response, log') \<Rightarrow>
               (if \<not> success response
                then Diagnostic (error_or (error response) ''Failed to update issue'')
                else
                  case data response of
                    JDict data_dict \<Rightarrow>
                      (case dict_get data_dict ''issueUpdate'' of
                         JDict payload \<Rightarrow>
                           if \<not> truthy (dict_get payload ''success'')
                           then Diagnostic ''Issue update failed''
                           else
                             (case dict_get payload ''issue'' of
                                JDict issue_data \<Rightarrow>
                                  (case parse_issue bi issue_data of
                                     Inl e \<Rightarrow> Raised e
                                   | Inr issue \<Rightarrow> Returned issue)
                              | _ \<Rightarrow> Diagnostic ''No issue in response'')
                       | _ \<Rightarrow> Diagnostic ''Issue update failed'')
                  | _ \<Rightarrow> Diagnostic ''Unexpected response'',
                log'))"

section \<open>Instances on which the model is run\<close>

text \<open>
  One interpreter instance for the closed theorems below. It reads a plain decimal
  literal (an optional sign, then ASCII digits), a float literal only in that form,
  and writes the infinities, NaN and a float that is a small whole number as Python
  does. On other floats and on non-empty containers its text is a placeholder; no
  theorem evaluates it there.
\<close>

fun decimal_value :: "nat \<Rightarrow> string \<Rightarrow> nat option" where
  "decimal_value acc [] = Some acc"
| "decimal_value acc (c # cs) =
     (let n = (of_char c :: nat)
      in if 48 \<le> n \<and> n \<le> 57 then decimal_value (10 * acc + (n - 48)) cs else None)"

definition plain_int :: "string \<Rightarrow> int option" where
  "plain_int s =
     (case s of
        [] \<Rightarrow> None
      | c # cs \<Rightarrow>
          if c = CHR ''-'' then (if cs = [] then None else map_option (\<lambda>n. - int n) (decimal_value 0 cs))
          else if c = CHR ''+'' then (if cs = [] then None else map_option int (decimal_value 0 cs))
          else map_option int (decimal_value 0 s))"

definition plain_float :: "string \<Rightarrow> pyfloat option" where
  "plain_float s =
     (case plain_int s of
        None \<Rightarrow> None
      | Some n \<Rightarrow>
          (case float_of_int n of
             Inr f \<Rightarrow> Some f
           | Inl e \<Rightarrow> Some (if n < 0 then NegInf else PosInf)))"

definition plain_float_text :: "pyfloat \<Rightarrow> string" where
  "plain_float_text f =
     (case f of
        PosInf \<Rightarrow> ''inf''
      | NegInf \<Rightarrow> ''-inf''
      | NaN \<Rightarrow> ''nan''
      | Finite s m e \<Rightarrow>
          if e = 0 \<and> m < 10 ^ 16 then (if s then ''-'' else []) @ digits m @ ''.0'' else ''<float>'')"

definition plain_container_text :: "json \<Rightarrow> string" where
  "plain_container_text v =
     (case v of
        JList [] \<Rightarrow> ''[]''
      | JDict [] \<Rightarrow> ''{}''
      | _ \<Rightarrow> ''<container>'')"

definition plain_builtins :: builtins where
  "plain_builtins =
     \<lparr>float_text = plain_float_text, container_text = plain_container_text,
      parse_int = plain_int, parse_float = plain_float\<rparr>"

text \<open>A collaborator that answers every request with the same response.\<close>

definition fixed_transport :: "dispatch_response \<Rightarrow> transport" where
  "fixed_transport resp = (\<lambda>log conn req. resp)"

text \<open>The answer of a transport that succeeded with the given JSON body.\<close>

definition ok_reply :: "json \<Rightarrow> dispatch_response" where
  "ok_reply body = \<lparr>resp_success = True, resp_response = Some \<lparr>resp_body = body\<rparr>, resp_error = None\<rparr>"

section \<open>Notions of the specification\<close>

text \<open>
  The first error's message as the specification words it: the text of the \<open>message\<close>
  entry of a mapping-shaped first error, and \<open>GraphQL error\<close> when the first error is
  not a mapping or has no such entry.
\<close>

definition first_error_message :: "builtins \<Rightarrow> json \<Rightarrow> string" where
  "first_error_message bi first =
     (case first of
        JDict e \<Rightarrow> (case map_of e ''message'' of Some m \<Rightarrow> py_str bi m | None \<Rightarrow> ''GraphQL error'')
      | _ \<Rightarrow> ''GraphQL error'')"

text \<open>
  Label flattening as the specification words it: the node list under \<open>labels.nodes\<close>
  (empty when a branch is absent or wrongly shaped), the mapping-shaped entries that
  carry a name Python takes for true, and the text of that name.
\<close>

definition label_node_list :: "(string \<times> json) list \<Rightarrow> json list" where
  "label_node_list raw =
     (case map_of raw ''labels'' of
        Some (JDict ln) \<Rightarrow> (case map_of ln ''nodes'' of Some (JList nodes) \<Rightarrow> nodes | _ \<Rightarrow> [])
      | _ \<Rightarrow> [])"

definition has_name :: "json \<Rightarrow> bool" where
  "has_name node = (case node of JDict d \<Rightarrow> truthy (dict_get d ''name'') | _ \<Rightarrow> False)"

definition name_text :: "builtins \<Rightarrow> json \<Rightarrow> string" where
  "name_text bi node = (case node of JDict d \<Rightarrow> py_str bi (dict_get d ''name'') | _ \<Rightarrow> [])"

text \<open>
  A mutation payload that declares failure: it is not a mapping, or its \<open>success\<close>
  entry is absent or false.
\<close>

definition mutation_declined :: "json \<Rightarrow> bool" where
  "mutation_declined payload =
     (case payload of JDict p \<Rightarrow> \<not> truthy (dict_get p ''success'') | _ \<Rightarrow> True)"

section \<open>Properties\<close>

subsection \<open>Dictionary lookups and the dispatch cases\<close>

lemma dict_get_or_map_of:
  "dict_get_or d key dflt = (case map_of d key of None \<Rightarrow> dflt | Some v \<Rightarrow> v)"
  by (induction d) auto

lemma dict_get_map_of:
  "dict_get d key = (case map_of d key of None \<Rightarrow> JNull | Some v \<Rightarrow> v)"
  by (simp add: dict_get_def dict_get_or_map_of)

lemma graphql_result:
  "graphql bi tr query variables ttl log =
     (graphql_outcome bi (tr log linear (graphql_request query variables ttl)),
      log @ [(linear, graphql_request query variables ttl)])"
  by (simp add: graphql_def dispatch_def)

lemma outcome_transport_failure:
  "\<not> resp_success resp \<or> resp_response resp = None \<Longrightarrow>
   graphql_outcome bi resp =
     \<lparr>success = False, data = JNull,
      error = Some (case resp_error resp of Some e \<Rightarrow> err_message e | None \<Rightarrow> ''Request failed'')\<rparr>"
  by (auto simp: graphql_outcome_def split: option.splits bool.splits)

lemma outcome_protocol_failure:
  "resp_success resp \<Longrightarrow> resp_response resp = Some r \<Longrightarrow> resp_body r = JDict b \<Longrightarrow>
   dict_get b ''errors'' = JList (first # others) \<Longrightarrow>
   graphql_outcome bi resp =
     \<lparr>success = False, data = JNull, error = Some (first_error_message bi first)\<rparr>"
  by (simp add: graphql_outcome_def first_error_message_def dict_get_or_map_of
      split: json.splits option.splits)

lemma outcome_mapping_success:
  "resp_success resp \<Longrightarrow> resp_response resp = Some r \<Longrightarrow> resp_body r = JDict b \<Longrightarrow>
   dict_get b ''errors'' = JList [] \<or> \<not> is_list (dict_get b ''errors'') \<Longrightarrow>
   graphql_outcome bi resp = \<lparr>success = True, data = dict_get b ''data'', error = None\<rparr>"
  by (auto simp: graphql_outcome_def split: json.splits list.splits)

lemma outcome_raw_success:
  "resp_success resp \<Longrightarrow> resp_response resp = Some r \<Longrightarrow> \<not> is_dict (resp_body r) \<Longrightarrow>
   graphql_outcome bi resp = \<lparr>success = True, data = resp_body r, error = None\<rparr>"
  by (auto simp: graphql_outcome_def split: json.splits)

lemma outcome_exhaustive:
  "((\<not> resp_success resp \<or> resp_response resp = None) \<and>
      graphql_outcome bi resp =
        \<lparr>success = False, data = JNull,
         error = Some (case resp_error resp of Some e \<Rightarrow> err_message e
                       | None \<Rightarrow> ''Request failed'')\<rparr>)
   \<or> (\<exists>r b first others.
        resp_success resp \<and> resp_response resp = Some r \<and> resp_body r = JDict b \<and>
        dict_get b ''errors'' = JList (first # others) \<and>
        graphql_outcome bi resp =
          \<lparr>success = False, data = JNull, error = Some (first_error_message bi first)\<rparr>)
   \<or> (\<exists>r b.
        resp_success resp \<and> resp_response resp = Some r \<and> resp_body r = JDict b \<and>
        (dict_get b ''errors'' = JList [] \<or> \<not> is_list (dict_get b ''errors'')) \<and>
        graphql_outcome bi resp = \<lparr>success = True, data = dict_get b ''data'', error = None\<rparr>)
   \<or> (\<exists>r.
        resp_success resp \<and> resp_response resp = Some r \<and> \<not> is_dict (resp_body r) \<and>
        graphql_outcome bi resp = \<lparr>success = True, data = resp_body r, error = None\<rparr>)"
proof (cases "resp_success resp \<and> resp_response resp \<noteq> None")
  case False
  then show ?thesis using outcome_transport_failure [of resp bi] by blast
next
  case True
  then obtain r where r: "resp_success resp" "resp_response resp = Some r" by auto
  show ?thesis
  proof (cases "is_dict (resp_body r)")
    case False
    then show ?thesis using r outcome_raw_success [of resp r bi] by blast
  next
    case True
    then obtain b where b: "resp_body r = JDict b" by (cases "resp_body r") simp_all
    show ?thesis
    proof (cases "\<exists>first others. dict_get b ''errors'' = JList (first # others)")
      case True
      then show ?thesis using r b outcome_protocol_failure [of resp r b _ _ bi] by blast
    next
      case False
      have "dict_get b ''errors'' = JList [] \<or> \<not> is_list (dict_get b ''errors'')"
      proof (cases "dict_get b ''errors''")
        case (JList es)
        then show ?thesis using False by (cases es) simp_all
      qed simp_all
      then show ?thesis using r b outcome_mapping_success [of resp r b bi] by blast
    qed
  qed
qed

lemma fixed_transport_answer:
  "fixed_transport resp log conn req = resp"
  by (simp add: fixed_transport_def)

lemma coerce_absent:
  "str_coerce bi JNull s = s" "int_coerce bi JNull i = Inr i" "float_coerce bi JNull f = Inr f"
  "opt_str bi JNull = None" "bool_coerce JNull b = b" "nested_str bi JNull key = None"
  by (simp_all add: str_coerce_def int_coerce_def float_coerce_def opt_str_def bool_coerce_def
      nested_str_def)

lemma label_names_filter_map:
  "label_names bi nodes = map (name_text bi) (filter has_name nodes)"
proof (induction nodes)
  case Nil
  show ?case by simp
next
  case (Cons node rest)
  show ?case
  proof (cases node)
    case (JDict d)
    then show ?thesis
      using Cons.IH
      by (cases "dict_get d ''name''") (simp_all add: has_name_def name_text_def str_coerce_def)
  qed (simp_all add: Cons.IH has_name_def)
qed

lemma issue_labels_branch:
  "(case dict_get_or raw ''labels'' (JDict []) of
      JDict ln \<Rightarrow>
        (case dict_get_or ln ''nodes'' (JList []) of
           JList nodes \<Rightarrow> label_names bi nodes
         | _ \<Rightarrow> [])
    | _ \<Rightarrow> []) = label_names bi (label_node_list raw)"
  by (simp add: label_node_list_def dict_get_or_map_of split: option.splits json.splits)

subsection \<open>Dispatch\<close>

text \<open>
  C1. Whatever the collaborator answers, \<open>graphql\<close> classifies it: a transport failure
  gives \<open>success = False\<close> with the collaborator's message or \<open>Request failed\<close>; a
  mapping body whose \<open>errors\<close> is a non-empty list gives \<open>success = False\<close> with the
  first error's message; a mapping body without an \<open>errors\<close> key gives
  \<open>success = True\<close> with the body's \<open>data\<close> entry; a body that is not a mapping gives
  \<open>success = True\<close> with the raw body. Every answer falls into one of these cases,
  the third taken to its full extent in the code: a mapping body whose \<open>errors\<close> entry
  is not a non-empty list.
\<close>

theorem graphql_dispatch_classification:
  assumes "tr log linear (graphql_request query variables ttl) = resp"
  shows "(\<not> resp_success resp \<or> resp_response resp = None \<longrightarrow>
            fst (graphql bi tr query variables ttl log) =
              \<lparr>success = False, data = JNull,
               error = Some (case resp_error resp of Some e \<Rightarrow> err_message e
                             | None \<Rightarrow> ''Request failed'')\<rparr>)
       \<and> (\<forall>r b first others.
            resp_success resp \<and> resp_response resp = Some r \<and> resp_body r = JDict b \<and>
            dict_get b ''errors'' = JList (first # others) \<longrightarrow>
            fst (graphql bi tr query variables ttl log) =
              \<lparr>success = False, data = JNull, error = Some (first_error_message bi first)\<rparr>)
       \<and> (\<forall>r b.
            resp_success resp \<and> resp_response resp = Some r \<and> resp_body r = JDict b \<and>
            map_of b ''errors'' = None \<longrightarrow>
            fst (graphql bi tr query variables ttl log) =
              \<lparr>success = True, data = dict_get b ''data'', error = None\<rparr>)
       \<and> (\<forall>r.
            resp_success resp \<and> resp_response resp = Some r \<and> \<not> is_dict (resp_body r) \<longrightarrow>
            fst (graphql bi tr query variables ttl log) =
              \<lparr>success = True, data = resp_body r, error = None\<rparr>)
       \<and> (((\<not> resp_success resp \<or> resp_response resp = None) \<and>
             fst (graphql bi tr query variables ttl log) =
               \<lparr>success = False, data = JNull,
                error = Some (case resp_error resp of Some e \<Rightarrow> err_message e
                              | None \<Rightarrow> ''Request failed'')\<rparr>)
          \<or> (\<exists>r b first others.
               resp_success resp \<and> resp_response resp = Some r \<and> resp_body r = JDict b \<and>
               dict_get b ''errors'' = JList (first # others) \<and>
               fst (graphql bi tr query variables ttl log) =
                 \<lparr>success = False, data = JNull, error = Some (first_error_message bi first)\<rparr>)
          \<or> (\<exists>r b.
               resp_success resp \<and> resp_response resp = Some r \<and> resp_body r = JDict b \<and>
               (dict_get b ''errors'' = JList [] \<or> \<not> is_list (dict_get b ''errors'')) \<and>
               fst (graphql bi tr query variables ttl log) =
                 \<lparr>success = True, data = dict_get b ''data'', error = None\<rparr>)
          \<or> (\<exists>r.
               resp_success resp \<and> resp_response resp = Some r \<and> \<not> is_dict (resp_body r) \<and>
               fst (graphql bi tr query variables ttl log) =
                 \<lparr>success = True, data = resp_body r, error = None\<rparr>))"
proof -
  have res: "fst (graphql bi tr query variables ttl log) = graphql_outcome bi resp"
    using assms by (simp add: graphql_result)
  have c1: "\<not> resp_success resp \<or> resp_response resp = None \<longrightarrow>
            graphql_outcome bi resp =
              \<lparr>success = False, data = JNull,
               error = Some (case resp_error resp of Some e \<Rightarrow> err_message e
                             | None \<Rightarrow> ''Request failed'')\<rparr>"
    using outcome_transport_failure by blast
  have c2: "\<forall>r b first others.
            resp_success resp \<and> resp_response resp = Some r \<and> resp_body r = JDict b \<and>
            dict_get b ''errors'' = JList (first # others) \<longrightarrow>
            graphql_outcome bi resp =
              \<lparr>success = False, data = JNull, error = Some (first_error_message bi first)\<rparr>"
    using outcome_protocol_failure by blast
  have c3: "\<forall>r b.
            resp_success resp \<and> resp_response resp = Some r \<and> resp_body r = JDict b \<and>
            map_of b ''errors'' = None \<longrightarrow>
            graphql_outcome bi resp = \<lparr>success = True, data = dict_get b ''data'', error = None\<rparr>"
  proof (intro allI impI)
    fix r b
    assume h: "resp_success resp \<and> resp_response resp = Some r \<and> resp_body r = JDict b \<and>
            map_of b ''errors'' = None"
    then have "dict_get b ''errors'' = JNull" by (simp add: dict_get_map_of)
    then have "\<not> is_list (dict_get b ''errors'')" by simp
    with h show "graphql_outcome bi resp = \<lparr>success = True, data = dict_get b ''data'', error = None\<rparr>"
      using outcome_mapping_success by blast
  qed
  have c4: "\<forall>r.
            resp_success resp \<and> resp_response resp = Some r \<and> \<not> is_dict (resp_body r) \<longrightarrow>
            graphql_outcome bi resp = \<lparr>success = True, data = resp_body r, error = None\<rparr>"
    using outcome_raw_success by blast
  note c5 = outcome_exhaustive [of resp bi]
  show ?thesis unfolding res by (intro conjI c1 c2 c3 c4 c5)
qed

theorem graphql_dispatch_classification_witness:
  "fst (graphql plain_builtins
         (fixed_transport \<lparr>resp_success = False, resp_response = None,
                            resp_error = Some \<lparr>err_message = ''timed out''\<rparr>\<rparr>)
         ''query'' None None []) =
     \<lparr>success = False, data = JNull, error = Some ''timed out''\<rparr>
   \<and> fst (graphql plain_builtins
         (fixed_transport (ok_reply (JDict [(''data'', JNull),
            (''errors'', JList [JDict [(''message'', JStr ''Entity not found'')]])])))
         ''query'' None None []) =
     \<lparr>success = False, data = JNull, error = Some ''Entity not found''\<rparr>
   \<and> fst (graphql plain_builtins
         (fixed_transport (ok_reply (JDict [(''data'', JDict [(''viewer'', JNull)])])))
         ''query'' None None []) =
     \<lparr>success = True, data = JDict [(''viewer'', JNull)], error = None\<rparr>
   \<and> fst (graphql plain_builtins (fixed_transport (ok_reply (JStr ''pong''))) ''query'' None None []) =
     \<lparr>success = True, data = JStr ''pong'', error = None\<rparr>"
proof -
  let ?R1 = "\<lparr>resp_success = False, resp_response = None,
              resp_error = Some \<lparr>err_message = ''timed out''\<rparr>\<rparr>"
  let ?R2 = "ok_reply (JDict [(''data'', JNull),
              (''errors'', JList [JDict [(''message'', JStr ''Entity not found'')]])])"
  let ?R3 = "ok_reply (JDict [(''data'', JDict [(''viewer'', JNull)])])"
  let ?R4 = "ok_reply (JStr ''pong'')"
  have h1: "fixed_transport ?R1 [] linear (graphql_request ''query'' None None) = ?R1"
    by (rule fixed_transport_answer)
  have h2: "fixed_transport ?R2 [] linear (graphql_request ''query'' None None) = ?R2"
    by (rule fixed_transport_answer)
  have h3: "fixed_transport ?R3 [] linear (graphql_request ''query'' None None) = ?R3"
    by (rule fixed_transport_answer)
  have h4: "fixed_transport ?R4 [] linear (graphql_request ''query'' None None) = ?R4"
    by (rule fixed_transport_answer)
  have a: "fst (graphql plain_builtins (fixed_transport ?R1) ''query'' None None []) =
     \<lparr>success = False, data = JNull, error = Some ''timed out''\<rparr>"
    using graphql_dispatch_classification
            [where tr = "fixed_transport ?R1" and bi = plain_builtins, OF h1]
    by simp
  have b: "fst (graphql plain_builtins (fixed_transport ?R2) ''query'' None None []) =
     \<lparr>success = False, data = JNull, error = Some ''Entity not found''\<rparr>"
    using graphql_dispatch_classification
            [where tr = "fixed_transport ?R2" and bi = plain_builtins, OF h2]
    by (simp add: ok_reply_def dict_get_def first_error_message_def)
  have c: "fst (graphql plain_builtins (fixed_transport ?R3) ''query'' None None []) =
     \<lparr>success = True, data = JDict [(''viewer'', JNull)], error = None\<rparr>"
    using graphql_dispatch_classification
            [where tr = "fixed_transport ?R3" and bi = plain_builtins, OF h3]
    by (simp add: ok_reply_def dict_get_def)
  have d: "fst (graphql plain_builtins (fixed_transport ?R4) ''query'' None None []) =
     \<lparr>success = True, data = JStr ''pong'', error = None\<rparr>"
    using graphql_dispatch_classification
            [where tr = "fixed_transport ?R4" and bi = plain_builtins, OF h4]
    by (simp add: ok_reply_def)
  show ?thesis using a b c d by simp
qed

text \<open>
  C4. When \<open>graphql\<close> reports a protocol failure and the first element of \<open>errors\<close>
  is not a mapping, or is a mapping without a \<open>message\<close> key, the error text is exactly
  \<open>GraphQL error\<close>.
\<close>

theorem graphql_error_fallback:
  assumes "tr log linear (graphql_request query variables ttl) = resp"
    and "resp_success resp" and "resp_response resp = Some r" and "resp_body r = JDict b"
    and "dict_get b ''errors'' = JList (first # others)"
    and "\<not> is_dict first \<or> (\<exists>e. first = JDict e \<and> map_of e ''message'' = None)"
  shows "fst (graphql bi tr query variables ttl log) =
           \<lparr>success = False, data = JNull, error = Some ''GraphQL error''\<rparr>"
proof -
  have "first_error_message bi first = ''GraphQL error''"
    using assms(6) by (auto simp: first_error_message_def split: json.splits)
  then show ?thesis
    using assms(1-5) outcome_protocol_failure [of resp r b first others bi]
    by (simp add: graphql_result)
qed

theorem graphql_error_fallback_witness:
  "fst (graphql plain_builtins
         (fixed_transport (ok_reply (JDict [(''errors'', JList [JStr ''boom''])])))
         ''query'' None None []) =
     \<lparr>success = False, data = JNull, error = Some ''GraphQL error''\<rparr>
   \<and> fst (graphql plain_builtins
         (fixed_transport (ok_reply (JDict [(''errors'', JList [JDict [(''code'', JInt 7)]])])))
         ''query'' None None []) =
     \<lparr>success = False, data = JNull, error = Some ''GraphQL error''\<rparr>"
proof -
  let ?B1 = "[(''errors'', JList [JStr ''boom''])]"
  let ?B2 = "[(''errors'', JList [JDict [(''code'', JInt 7)]])]"
  have t1: "fixed_transport (ok_reply (JDict ?B1)) [] linear (graphql_request ''query'' None None)
              = ok_reply (JDict ?B1)"
    by (rule fixed_transport_answer)
  have t2: "fixed_transport (ok_reply (JDict ?B2)) [] linear (graphql_request ''query'' None None)
              = ok_reply (JDict ?B2)"
    by (rule fixed_transport_answer)
  have s1: "resp_success (ok_reply (JDict ?B1))" and s2: "resp_success (ok_reply (JDict ?B2))"
    by (simp_all add: ok_reply_def)
  have r1: "resp_response (ok_reply (JDict ?B1)) = Some \<lparr>resp_body = JDict ?B1\<rparr>"
    and r2: "resp_response (ok_reply (JDict ?B2)) = Some \<lparr>resp_body = JDict ?B2\<rparr>"
    by (simp_all add: ok_reply_def)
  have b1: "resp_body \<lparr>resp_body = JDict ?B1\<rparr> = JDict ?B1"
    and b2: "resp_body \<lparr>resp_body = JDict ?B2\<rparr> = JDict ?B2"
    by simp_all
  have e1: "dict_get ?B1 ''errors'' = JList (JStr ''boom'' # [])"
    and e2: "dict_get ?B2 ''errors'' = JList (JDict [(''code'', JInt 7)] # [])"
    by (simp_all add: dict_get_def)
  have f1: "\<not> is_dict (JStr ''boom'')
              \<or> (\<exists>e. JStr ''boom'' = JDict e \<and> map_of e ''message'' = None)"
    by simp
  have f2: "\<not> is_dict (JDict [(''code'', JInt 7)])
              \<or> (\<exists>e. JDict [(''code'', JInt 7)] = JDict e \<and> map_of e ''message'' = None)"
    by simp
  show ?thesis
    using graphql_error_fallback
            [where tr = "fixed_transport (ok_reply (JDict ?B1))" and bi = plain_builtins,
             OF t1 s1 r1 b1 e1 f1]
          graphql_error_fallback
            [where tr = "fixed_transport (ok_reply (JDict ?B2))" and bi = plain_builtins,
             OF t2 s2 r2 b2 e2 f2]
    by simp
qed

text \<open>
  C9. For a transport success whose body is a mapping in which the \<open>errors\<close> key is
  present but holds an empty list or a value that is not a list, \<open>graphql\<close> returns
  \<open>success = True\<close> with the body's \<open>data\<close> entry: the key alone never causes failure.
\<close>

theorem graphql_errors_key_alone:
  assumes "tr log linear (graphql_request query variables ttl) = resp"
    and "resp_success resp" and "resp_response resp = Some r" and "resp_body r = JDict b"
    and "map_of b ''errors'' = Some v" and "v = JList [] \<or> \<not> is_list v"
  shows "fst (graphql bi tr query variables ttl log) =
           \<lparr>success = True, data = dict_get b ''data'', error = None\<rparr>"
proof -
  have "dict_get b ''errors'' = v" using assms(5) by (simp add: dict_get_map_of)
  then have "dict_get b ''errors'' = JList [] \<or> \<not> is_list (dict_get b ''errors'')"
    using assms(6) by simp
  then show ?thesis
    using assms(1-4) outcome_mapping_success [of resp r b bi] by (simp add: graphql_result)
qed

theorem graphql_errors_key_alone_witness:
  "fst (graphql plain_builtins
         (fixed_transport (ok_reply (JDict [(''data'', JInt 1), (''errors'', JList [])])))
         ''query'' None None []) =
     \<lparr>success = True, data = JInt 1, error = None\<rparr>
   \<and> fst (graphql plain_builtins
         (fixed_transport (ok_reply (JDict [(''errors'', JStr ''oops''), (''data'', JInt 2)])))
         ''query'' None None []) =
     \<lparr>success = True, data = JInt 2, error = None\<rparr>"
proof -
  let ?B1 = "[(''data'', JInt 1), (''errors'', JList [])]"
  let ?B2 = "[(''errors'', JStr ''oops''), (''data'', JInt 2)]"
  have t1: "fixed_transport (ok_reply (JDict ?B1)) [] linear (graphql_request ''query'' None None)
              = ok_reply (JDict ?B1)"
    by (rule fixed_transport_answer)
  have t2: "fixed_transport (ok_reply (JDict ?B2)) [] linear (graphql_request ''query'' None None)
              = ok_reply (JDict ?B2)"
    by (rule fixed_transport_answer)
  have s1: "resp_success (ok_reply (JDict ?B1))" and s2: "resp_success (ok_reply (JDict ?B2))"
    by (simp_all add: ok_reply_def)
  have r1: "resp_response (ok_reply (JDict ?B1)) = Some \<lparr>resp_body = JDict ?B1\<rparr>"
    and r2: "resp_response (ok_reply (JDict ?B2)) = Some \<lparr>resp_body = JDict ?B2\<rparr>"
    by (simp_all add: ok_reply_def)
  have b1: "resp_body \<lparr>resp_body = JDict ?B1\<rparr> = JDict ?B1"
    and b2: "resp_body \<lparr>resp_body = JDict ?B2\<rparr> = JDict ?B2"
    by simp_all
  have e1: "map_of ?B1 ''errors'' = Some (JList [])"
    and e2: "map_of ?B2 ''errors'' = Some (JStr ''oops'')"
    by simp_all
  have f1: "JList [] = JList [] \<or> \<not> is_list (JList [])"
    and f2: "JStr ''oops'' = JList [] \<or> \<not> is_list (JStr ''oops'')"
    by simp_all
  show ?thesis
    using graphql_errors_key_alone
            [where tr = "fixed_transport (ok_reply (JDict ?B1))" and bi = plain_builtins,
             OF t1 s1 r1 b1 e1 f1]
          graphql_errors_key_alone
            [where tr = "fixed_transport (ok_reply (JDict ?B2))" and bi = plain_builtins,
             OF t2 s2 r2 b2 e2 f2]
    by (simp add: dict_get_def)
qed

text \<open>
  C2, as the claim states it, fails: a first error whose \<open>message\<close> is the empty text
  gives \<open>success = False\<close> with an empty \<open>error\<close>, and a mapping body without a
  \<open>data\<close> entry gives \<open>success = True\<close> with \<open>data\<close> null.
\<close>

theorem graphql_empty_error_counterexample:
  "\<not> success (fst (graphql plain_builtins
        (fixed_transport (ok_reply (JDict [(''errors'', JList [JDict [(''message'', JStr [])]])])))
        ''query'' None None []))
   \<and> error (fst (graphql plain_builtins
        (fixed_transport (ok_reply (JDict [(''errors'', JList [JDict [(''message'', JStr [])]])])))
        ''query'' None None [])) = Some []
   \<and> success (fst (graphql plain_builtins (fixed_transport (ok_reply (JDict []))) ''query'' None None []))
   \<and> data (fst (graphql plain_builtins (fixed_transport (ok_reply (JDict []))) ''query'' None None [])) = JNull
   \<and> error (fst (graphql plain_builtins (fixed_transport (ok_reply (JDict []))) ''query'' None None [])) = None"
  by (simp add: graphql_result fixed_transport_def ok_reply_def graphql_outcome_def dict_get_def)

text \<open>
  C2, amended. For every result of \<open>graphql\<close>, exactly one side is filled in.
  With \<open>success = True\<close> the \<open>error\<close> is null and \<open>data\<close> is the payload of the
  response: the \<open>data\<close> entry of a mapping body, the raw body otherwise; it is null
  only where the body carries none. With \<open>success = False\<close> the \<open>data\<close> is null and
  \<open>error\<close> is the text of the message the failure comes with: the collaborator's
  message (or \<open>Request failed\<close>) on a transport failure, the first error's message on a
  protocol failure. That text is empty only when the message itself is empty.
\<close>

theorem graphql_result_invariant:
  assumes "tr log linear (graphql_request query variables ttl) = resp"
    and "fst (graphql bi tr query variables ttl log) = res"
  shows "(success res \<longrightarrow>
            error res = None
            \<and> (\<exists>r. resp_success resp \<and> resp_response resp = Some r
                  \<and> data res = (case resp_body r of
                                  JDict b \<Rightarrow> dict_get b ''data''
                                | raw_body \<Rightarrow> raw_body)))
       \<and> (\<not> success res \<longrightarrow>
            data res = JNull
            \<and> (((\<not> resp_success resp \<or> resp_response resp = None)
                  \<and> error res = Some (case resp_error resp of Some e \<Rightarrow> err_message e
                                        | None \<Rightarrow> ''Request failed''))
               \<or> (\<exists>r b first others.
                     resp_success resp \<and> resp_response resp = Some r \<and> resp_body r = JDict b
                     \<and> dict_get b ''errors'' = JList (first # others)
                     \<and> error res = Some (first_error_message bi first))))
       \<and> (\<not> success res \<and> error res = Some [] \<longrightarrow>
            (\<exists>e. resp_error resp = Some e \<and> err_message e = [])
          \<or> (\<exists>r b first others. resp_response resp = Some r \<and> resp_body r = JDict b
                \<and> dict_get b ''errors'' = JList (first # others)
                \<and> first_error_message bi first = []))"
proof -
  have res: "res = graphql_outcome bi resp"
    using assms by (simp add: graphql_result)
  show ?thesis
    using outcome_exhaustive [of resp bi] unfolding res
    by (elim disjE exE conjE) (auto split: option.splits json.splits)
qed

theorem graphql_result_invariant_witness:
  "data (fst (graphql plain_builtins
        (fixed_transport (ok_reply (JDict [(''data'', JNull),
           (''errors'', JList [JDict [(''message'', JStr ''Entity not found'')]])])))
        ''query'' None None [])) = JNull
   \<and> error (fst (graphql plain_builtins
        (fixed_transport (ok_reply (JDict [(''data'', JNull),
           (''errors'', JList [JDict [(''message'', JStr ''Entity not found'')]])])))
        ''query'' None None [])) = Some ''Entity not found''
   \<and> error (fst (graphql plain_builtins
        (fixed_transport (ok_reply (JDict [(''data'', JDict [(''viewer'', JNull)])])))
        ''query'' None None [])) = None
   \<and> data (fst (graphql plain_builtins
        (fixed_transport (ok_reply (JDict [(''data'', JDict [(''viewer'', JNull)])])))
        ''query'' None None [])) = JDict [(''viewer'', JNull)]"
proof -
  let ?R1 = "ok_reply (JDict [(''data'', JNull),
           (''errors'', JList [JDict [(''message'', JStr ''Entity not found'')]])])"
  let ?R2 = "ok_reply (JDict [(''data'', JDict [(''viewer'', JNull)])])"
  have t1: "fixed_transport ?R1 [] linear (graphql_request ''query'' None None) = ?R1"
    by (rule fixed_transport_answer)
  have t2: "fixed_transport ?R2 [] linear (graphql_request ''query'' None None) = ?R2"
    by (rule fixed_transport_answer)
  have n1: "\<not> success (fst (graphql plain_builtins (fixed_transport ?R1) ''query'' None None []))"
    by (simp add: graphql_result fixed_transport_def ok_reply_def graphql_outcome_def dict_get_def)
  have n2: "success (fst (graphql plain_builtins (fixed_transport ?R2) ''query'' None None []))"
    by (simp add: graphql_result fixed_transport_def ok_reply_def graphql_outcome_def dict_get_def)
  have a: "data (fst (graphql plain_builtins (fixed_transport ?R1) ''query'' None None [])) = JNull
     \<and> error (fst (graphql plain_builtins (fixed_transport ?R1) ''query'' None None []))
         = Some ''Entity not found''"
    using n1
      graphql_result_invariant
        [where tr = "fixed_transport ?R1" and bi = plain_builtins, OF t1 refl]
    by (auto simp: ok_reply_def dict_get_def first_error_message_def)
  have b: "error (fst (graphql plain_builtins (fixed_transport ?R2) ''query'' None None [])) = None
     \<and> data (fst (graphql plain_builtins (fixed_transport ?R2) ''query'' None None []))
         = JDict [(''viewer'', JNull)]"
    using n2
      graphql_result_invariant
        [where tr = "fixed_transport ?R2" and bi = plain_builtins, OF t2 refl]
    by (auto simp: ok_reply_def dict_get_def)
  show ?thesis using a b by simp
qed

subsection \<open>Coercion\<close>

text \<open>
  Absent input gives the default, and the only exceptions that leave the two numeric
  helpers are the \<open>OverflowError\<close> of \<open>int\<close> on an infinite float and of \<open>float\<close>
  on an integer beyond the range of a double; the other four helpers are total.
\<close>

lemma int_coerce_raises:
  assumes "int_coerce bi v dflt = Inl e"
  shows "e = OverflowError \<and> (v = JFloat PosInf \<or> v = JFloat NegInf)"
proof (cases v)
  case (JFloat f)
  then show ?thesis using assms by (cases f) (simp_all add: int_coerce_def Let_def)
next
  case (JStr s)
  then show ?thesis using assms by (cases "parse_int bi s") (simp_all add: int_coerce_def)
qed (use assms in \<open>simp_all add: int_coerce_def\<close>)

lemma bit_length_pow2: "bit_length (2 ^ k) = Suc k"
proof (induction k)
  case 0
  show ?case by (simp add: bit_length.simps [of "Suc 0"] bit_length.simps [of 0])
next
  case (Suc k)
  have "bit_length (2 ^ Suc k) = Suc (bit_length (2 ^ Suc k div 2))"
    by (subst bit_length.simps) simp
  then show ?case using Suc by simp
qed

lemma float_of_int_pow2_overflow:
  assumes "1024 \<le> k"
  shows "float_of_int (2 ^ k) = Inl OverflowError"
proof -
  have a: "nat \<bar>2 ^ k :: int\<bar> = 2 ^ k"
    by (simp add: nat_power_eq)
  have "(2::nat) ^ 53 \<le> 2 ^ k"
    using assms by (intro power_increasing) simp_all
  then have big: "\<not> (2::nat) ^ k < 2 ^ 53"
    by (simp only: not_less)
  have bl: "bit_length (2 ^ k) - 53 = k - 52"
    using assms by (simp add: bit_length_pow2)
  have "(2::nat) ^ (k - (k - 52)) = 2 ^ k div 2 ^ (k - 52)"
    by (rule power_diff) simp_all
  moreover have "k - (k - 52) = 52" using assms by simp
  ultimately have q: "(2::nat) ^ k div 2 ^ (k - 52) = 2 ^ 52"
    by (simp only:)
  have r: "(2::nat) ^ k mod 2 ^ (k - 52) = 0"
    by (simp add: le_imp_power_dvd)
  have "(2::nat) ^ 52 * 2 ^ (k - 52) = 2 ^ (52 + (k - 52))"
    by (simp only: power_add)
  moreover have "52 + (k - 52) = k" using assms by simp
  ultimately have prod: "(2::nat) ^ 52 * 2 ^ (k - 52) = 2 ^ k"
    by (simp only:)
  have le: "(2::nat) ^ 1024 \<le> 2 ^ k"
    using assms by (intro power_increasing) simp_all
  have pick: "(if (2::nat) ^ (k - 52 - 1) < 0 \<or> ((0::nat) = 2 ^ (k - 52 - 1) \<and> odd ((2::nat) ^ 52))
               then (2::nat) ^ 52 + 1 else 2 ^ 52) = 2 ^ 52"
    by simp
  show ?thesis
    unfolding float_of_int_def Let_def a bl q r pick prod
    by (simp only: big le if_False if_True)
qed

lemma float_coerce_huge: "float_coerce bi (JInt (2 ^ 1024)) dflt = Inl OverflowError"
  by (simp only: float_coerce_def json.case py_float.simps
      float_of_int_pow2_overflow [OF order_refl] sum.case py_exception.case)

lemma float_of_int_raises:
  assumes "float_of_int n = Inl e"
  shows "e = OverflowError \<and> 2 ^ 53 \<le> \<bar>n\<bar>"
proof -
  have big: "\<not> nat \<bar>n\<bar> < 2 ^ 53"
  proof
    assume "nat \<bar>n\<bar> < 2 ^ 53"
    then have "float_of_int n = Inr (Finite (n < 0) (nat \<bar>n\<bar>) 0)"
      by (simp add: float_of_int_def Let_def)
    with assms show False by simp
  qed
  then have "float_of_int n = Inl OverflowError \<or> (\<exists>f. float_of_int n = Inr f)"
    unfolding float_of_int_def Let_def by (simp only: if_False) metis
  with assms have "e = OverflowError" by auto
  moreover from big have "2 ^ 53 \<le> \<bar>n\<bar>" by simp
  ultimately show ?thesis by simp
qed

lemma float_coerce_raises:
  assumes "float_coerce bi v dflt = Inl e"
  shows "e = OverflowError \<and> (\<exists>n. v = JInt n \<and> 2 ^ 53 \<le> \<bar>n\<bar>)"
proof (cases v)
  case (JInt n)
  show ?thesis
  proof (cases "float_of_int n")
    case (Inl x)
    then have "x = OverflowError \<and> 2 ^ 53 \<le> \<bar>n\<bar>" by (rule float_of_int_raises)
    then show ?thesis using assms JInt Inl by (simp add: float_coerce_def)
  next
    case (Inr f)
    then show ?thesis using assms JInt by (simp add: float_coerce_def)
  qed
next
  case (JStr s)
  then show ?thesis using assms by (cases "parse_float bi s") (simp_all add: float_coerce_def)
qed (use assms in \<open>simp_all add: float_coerce_def\<close>)

text \<open>
  C3. The claim is that no coercion helper ever raises. \<open>_int\<close> catches \<open>TypeError\<close>
  and \<open>ValueError\<close> only, and \<open>int\<close> of an infinite float raises \<open>OverflowError\<close>:
  on the float a decoder yields for \<open>1e999\<close> the exception escapes \<open>_int\<close>, whatever
  the default.
\<close>

theorem int_coerce_overflow_escapes:
  "int_coerce bi (JFloat PosInf) dflt = Inl OverflowError
   \<and> int_coerce bi (JFloat NegInf) dflt = Inl OverflowError"
  by (simp add: int_coerce_def)

subsection \<open>Node parsers\<close>

text \<open>
  Label flattening where a record is built. On every node whose priority is not an
  infinite float, both copies of \<open>_parse_issue\<close> return the same record, and its labels
  are the name texts of the mapping-shaped entries of \<open>labels.nodes\<close> that carry a
  non-empty name, in the order of the response: entries without one are dropped and
  nothing is sorted. The node list of the specification's example gives \<open>b\<close>, \<open>a\<close>.
\<close>

lemma label_flattening_when_parsed:
  assumes "dict_get raw ''priority'' \<noteq> JFloat PosInf"
    and "dict_get raw ''priority'' \<noteq> JFloat NegInf"
  shows "\<exists>r. parse_issue bi raw = Inr r \<and> compound_parse_issue bi raw = Inr r
           \<and> iss_labels r = map (name_text bi) (filter has_name (label_node_list raw))"
proof (cases "int_coerce bi (dict_get raw ''priority'') 0")
  case (Inl e)
  then show ?thesis using assms int_coerce_raises by blast
next
  case (Inr p)
  then show ?thesis
    by (simp add: parse_issue_def compound_parse_issue_def Let_def issue_labels_branch
        label_names_filter_map)
qed

lemma label_flattening_example:
  "\<exists>r. parse_issue plain_builtins
          [(''labels'', JDict [(''nodes'', JList [JDict [(''name'', JStr ''b'')],
             JDict [(''name'', JStr ''a'')], JDict [(''notname'', JStr ''x'')]])])] = Inr r
       \<and> compound_parse_issue plain_builtins
          [(''labels'', JDict [(''nodes'', JList [JDict [(''name'', JStr ''b'')],
             JDict [(''name'', JStr ''a'')], JDict [(''notname'', JStr ''x'')]])])] = Inr r
       \<and> iss_labels r = [''b'', ''a'']"
proof -
  let ?raw = "[(''labels'', JDict [(''nodes'', JList [JDict [(''name'', JStr ''b'')],
             JDict [(''name'', JStr ''a'')], JDict [(''notname'', JStr ''x'')]])])]"
  have h1: "dict_get ?raw ''priority'' \<noteq> JFloat PosInf"
    and h2: "dict_get ?raw ''priority'' \<noteq> JFloat NegInf"
    by (simp_all add: dict_get_def)
  have "map (name_text plain_builtins) (filter has_name (label_node_list ?raw)) = [''b'', ''a'']"
    by (simp add: label_node_list_def has_name_def name_text_def dict_get_def)
  then show ?thesis
    using label_flattening_when_parsed [OF h1 h2, where bi = plain_builtins] by auto
qed

text \<open>
  C5. The claim is that every raw issue node parses to a record whose labels are the
  names of the well-formed entries of \<open>labels.nodes\<close>, in order. \<open>_parse_issue\<close> builds
  its record only after \<open>_int\<close> has coerced the priority, and the \<open>OverflowError\<close> of C3
  escapes there: a node with an infinite priority and a well-formed label list gives no
  record and no labels, in either copy of the parser.
\<close>

theorem parse_issue_infinite_priority_raises:
  "parse_issue bi
     [(''priority'', JFloat PosInf),
      (''labels'', JDict [(''nodes'', JList [JDict [(''name'', JStr ''b'')],
         JDict [(''name'', JStr ''a'')], JDict [(''notname'', JStr ''x'')]])])] = Inl OverflowError
   \<and> compound_parse_issue bi
     [(''priority'', JFloat PosInf),
      (''labels'', JDict [(''nodes'', JList [JDict [(''name'', JStr ''b'')],
         JDict [(''name'', JStr ''a'')], JDict [(''notname'', JStr ''x'')]])])] = Inl OverflowError"
  by (simp add: parse_issue_def compound_parse_issue_def dict_get_def int_coerce_def)

text \<open>
  C6. Parsing the empty mapping raises nothing and gives every field its default, for
  the issue, comment and workflow state parsers: text fields are empty, optional fields
  are null, the priority is 0, the position is 0.0 and the labels are empty.
\<close>

theorem parser_defaults:
  "parse_issue bi [] =
     Inr \<lparr>iss_id = [], iss_identifier = [], iss_title = [], iss_description = None,
          iss_state = None, iss_priority = 0, iss_assignee = None, iss_labels = [],
          iss_created_at = None, iss_updated_at = None\<rparr>
   \<and> compound_parse_issue bi [] =
     Inr \<lparr>iss_id = [], iss_identifier = [], iss_title = [], iss_description = None,
          iss_state = None, iss_priority = 0, iss_assignee = None, iss_labels = [],
          iss_created_at = None, iss_updated_at = None\<rparr>
   \<and> parse_comment bi [] =
     \<lparr>comment_id = [], comment_body = [], comment_user = None, comment_created_at = None\<rparr>
   \<and> parse_state bi [] =
     Inr \<lparr>ws_id = [], ws_name = [], ws_type = [], ws_color = None,
          ws_position = Finite False 0 0\<rparr>"
  by (simp add: parse_issue_def compound_parse_issue_def parse_comment_def parse_state_def
      dict_get_def coerce_absent)

subsection \<open>Tools\<close>

text \<open>
  What does degrade in \<open>linear_issue_context\<close>: with the issue parsed and the comment
  nodes iterable, an absent or non-mapping \<open>team\<close>, an absent or non-mapping \<open>states\<close>
  and an absent \<open>nodes\<close> key each give an empty state list.
\<close>

lemma issue_context_degrades:
  assumes "graphql bi tr issue_context_query (Some [(''id'', JStr issue_id)]) None log = (res, log')"
    and "success res" and "data res = JDict d" and "dict_get d ''issue'' = JDict issue_data"
    and "compound_parse_issue bi issue_data = Inr issue"
    and "py_iter (case dict_get_or issue_data ''comments'' (JDict []) of
                    JDict c \<Rightarrow> dict_get_or c ''nodes'' (JList [])
                  | _ \<Rightarrow> JList []) = Inr cns"
    and "case map_of issue_data ''team'' of
           Some (JDict t) \<Rightarrow>
             (case map_of t ''states'' of
                Some (JDict s) \<Rightarrow> map_of s ''nodes'' = None
              | _ \<Rightarrow> True)
         | _ \<Rightarrow> True"
  shows "linear_issue_context bi tr issue_id log =
           (Returned \<lparr>ctx_issue = issue, ctx_comments = parse_comment_nodes bi cns,
                      ctx_states = []\<rparr>, log')"
proof -
  have nodes: "(case (case dict_get_or issue_data ''team'' (JDict []) of
                   JDict t \<Rightarrow> dict_get_or t ''states'' (JDict [])
                 | _ \<Rightarrow> JDict []) of
            JDict s \<Rightarrow> dict_get_or s ''nodes'' (JList [])
          | _ \<Rightarrow> JList []) = JList []"
    using assms(7)
    by (auto simp: dict_get_or_map_of split: option.splits json.splits)
  show ?thesis
    using assms(1-6)
    by (simp add: linear_issue_context_def Let_def nodes)
qed

text \<open>
  C7. The claim is that a wrongly shaped \<open>nodes\<close> branch under \<open>team.states\<close> still
  gives an \<open>IssueContextInfo\<close> with no states. \<open>linear_issue_context\<close> iterates over
  \<open>nodes\<close> without the list test that \<open>_parse_issue\<close> and \<open>linear_my_issues\<close> make:
  where \<open>nodes\<close> is null the tool raises \<open>TypeError\<close> and returns nothing.
\<close>

theorem issue_context_null_state_nodes_raises:
  "fst (linear_issue_context bi
         (fixed_transport (ok_reply (JDict [(''data'', JDict [(''issue'',
            JDict [(''team'', JDict [(''states'', JDict [(''nodes'', JNull)])])])])])))
         issue_id log) = Raised TypeError"
  by (simp add: linear_issue_context_def graphql_result fixed_transport_def ok_reply_def
      graphql_outcome_def dict_get_def compound_parse_issue_def coerce_absent)

text \<open>
  What each mutation tool returns, by the result of its dispatch: the error text (or the
  tool's fallback) on a failed dispatch, \<open>Unexpected response\<close> when the data is not a
  mapping, the fixed failure text when the payload declares failure, \<open>No issue in response\<close>
  when the payload has no issue mapping, and the parsed issue otherwise.
\<close>

lemma create_issue_outcome:
  assumes "graphql bi tr issue_create_query
             (Some [(''input'', JDict (create_issue_input team_id title description assignee_id
                state_id priority label_ids cycle_id project_id estimate create_as_user
                display_icon_url))]) None log = (res, log')"
  shows "linear_create_issue bi tr team_id title description assignee_id state_id priority
           label_ids cycle_id project_id estimate create_as_user display_icon_url log =
         (if \<not> success res
          then Diagnostic (error_or (error res) ''Failed to create issue'')
          else case data res of
                 JDict d \<Rightarrow>
                   if mutation_declined (dict_get d ''issueCreate'')
                   then Diagnostic ''Issue creation failed''
                   else (case dict_get d ''issueCreate'' of
                           JDict payload \<Rightarrow>
                             (case dict_get payload ''issue'' of
                                JDict issue_data \<Rightarrow>
                                  (case parse_issue bi issue_data of
                                     Inl e \<Rightarrow> Raised e
                                   | Inr issue \<Rightarrow> Returned issue)
                              | _ \<Rightarrow> Diagnostic ''No issue in response'')
                         | _ \<Rightarrow> Diagnostic ''Issue creation failed'')
               | _ \<Rightarrow> Diagnostic ''Unexpected response'',
          log')"
  using assms
  by (simp add: linear_create_issue_def Let_def mutation_declined_def split: json.splits)

lemma update_issue_outcome:
  assumes "truthy (JDict (update_issue_input new_title description state_id assignee_id
             priority label_ids cycle_id project_id estimate))"
    and "graphql bi tr issue_update_query
             (Some [(''id'', JStr issue_id),
                    (''input'', JDict (update_issue_input new_title description state_id
                       assignee_id priority label_ids cycle_id project_id estimate))]) None log =
           (res, log')"
  shows "linear_update_issue bi tr issue_id new_title description state_id assignee_id priority
           label_ids cycle_id project_id estimate log =
         (if \<not> success res
          then Diagnostic (error_or (error res) ''Failed to update issue'')
          else case data res of
                 JDict d \<Rightarrow>
                   if mutation_declined (dict_get d ''issueUpdate'')
                   then Diagnostic ''Issue update failed''
                   else (case dict_get d ''issueUpdate'' of
                           JDict payload \<Rightarrow>
                             (case dict_get payload ''issue'' of
                                JDict issue_data \<Rightarrow>
                                  (case parse_issue bi issue_data of
                                     Inl e \<Rightarrow> Raised e
                                   | Inr issue \<Rightarrow> Returned issue)
                              | _ \<Rightarrow> Diagnostic ''No issue in response'')
                         | _ \<Rightarrow> Diagnostic ''Issue update failed'')
               | _ \<Rightarrow> Diagnostic ''Unexpected response'',
          log')"
  using assms
  by (simp add: linear_update_issue_def Let_def mutation_declined_def split: json.splits)

lemma error_or_eq_iff:
  "msg \<noteq> [] \<Longrightarrow> fallback \<noteq> msg \<Longrightarrow>
   error_or err fallback = msg \<longleftrightarrow> err = Some msg"
  by (cases err) (auto simp: error_or_def)

text \<open>
  C8, as the claim states it, fails: the failure text is not set apart from the
  transport and protocol diagnostics, which are free text. A transport failure whose
  message is \<open>Issue creation failed\<close>, and a protocol failure whose first error's
  message is \<open>Issue update failed\<close>, make the tools return those very strings.
\<close>

theorem mutation_failure_text_counterexample:
  "fst (linear_create_issue plain_builtins
         (fixed_transport \<lparr>resp_success = False, resp_response = None,
                            resp_error = Some \<lparr>err_message = ''Issue creation failed''\<rparr>\<rparr>)
         ''team-1'' ''Title'' None None None None None None None None None None []) =
     Diagnostic ''Issue creation failed''
   \<and> fst (linear_update_issue plain_builtins
         (fixed_transport (ok_reply (JDict [(''errors'',
            JList [JDict [(''message'', JStr ''Issue update failed'')]])])))
         ''ENG-1'' (Some ''Title'') None None None None None None None None []) =
     Diagnostic ''Issue update failed''"
  by (simp add: linear_create_issue_def linear_update_issue_def update_issue_input_def
      set_if_given_def graphql_result fixed_transport_def ok_reply_def graphql_outcome_def
      dict_get_def error_or_def)

text \<open>
  C8, amended. When the dispatch succeeds with a mapping for data and the mutation
  payload is not a mapping or does not carry a true \<open>success\<close>, \<open>linear_create_issue\<close>
  returns exactly \<open>Issue creation failed\<close> and \<open>linear_update_issue\<close> (called with a
  field to update) exactly \<open>Issue update failed\<close>. The tool returns that text in one
  other case only: a failed dispatch whose error message is that very text. No other
  shape of a successful dispatch gives it, and neither do the fixed transport, protocol
  and envelope diagnostics.
\<close>

theorem mutation_declared_failure:
  "(graphql bi tr issue_create_query
      (Some [(''input'', JDict (create_issue_input team_id title description assignee_id
         state_id priority label_ids cycle_id project_id estimate create_as_user
         display_icon_url))]) None log = (res, log') \<longrightarrow>
      (success res \<and> (\<exists>d. data res = JDict d \<and> mutation_declined (dict_get d ''issueCreate'')) \<longrightarrow>
         linear_create_issue bi tr team_id title description assignee_id state_id priority
           label_ids cycle_id project_id estimate create_as_user display_icon_url log =
           (Diagnostic ''Issue creation failed'', log'))
      \<and> (fst (linear_create_issue bi tr team_id title description assignee_id state_id priority
                label_ids cycle_id project_id estimate create_as_user display_icon_url log) =
            Diagnostic ''Issue creation failed''
          \<longleftrightarrow> (success res
                \<and> (\<exists>d. data res = JDict d \<and> mutation_declined (dict_get d ''issueCreate'')))
              \<or> (\<not> success res \<and> error res = Some ''Issue creation failed'')))
   \<and> (truthy (JDict (update_issue_input new_title description state_id assignee_id priority
         label_ids cycle_id project_id estimate))
      \<and> graphql bi tr issue_update_query
          (Some [(''id'', JStr issue_id),
                 (''input'', JDict (update_issue_input new_title description state_id
                    assignee_id priority label_ids cycle_id project_id estimate))]) None log =
          (res, log') \<longrightarrow>
      (success res \<and> (\<exists>d. data res = JDict d \<and> mutation_declined (dict_get d ''issueUpdate'')) \<longrightarrow>
         linear_update_issue bi tr issue_id new_title description state_id assignee_id priority
           label_ids cycle_id project_id estimate log =
           (Diagnostic ''Issue update failed'', log'))
      \<and> (fst (linear_update_issue bi tr issue_id new_title description state_id assignee_id
                priority label_ids cycle_id project_id estimate log) =
            Diagnostic ''Issue update failed''
          \<longleftrightarrow> (success res
                \<and> (\<exists>d. data res = JDict d \<and> mutation_declined (dict_get d ''issueUpdate'')))
              \<or> (\<not> success res \<and> error res = Some ''Issue update failed'')))"
proof (intro conjI impI)
  assume g: "graphql bi tr issue_create_query
      (Some [(''input'', JDict (create_issue_input team_id title description assignee_id
         state_id priority label_ids cycle_id project_id estimate create_as_user
         display_icon_url))]) None log = (res, log')"
  note out = create_issue_outcome [OF g]
  {
    assume "success res \<and> (\<exists>d. data res = JDict d \<and> mutation_declined (dict_get d ''issueCreate''))"
    then show "linear_create_issue bi tr team_id title description assignee_id state_id priority
           label_ids cycle_id project_id estimate create_as_user display_icon_url log =
           (Diagnostic ''Issue creation failed'', log')"
      unfolding out by auto
  }
  show "fst (linear_create_issue bi tr team_id title description assignee_id state_id priority
                label_ids cycle_id project_id estimate create_as_user display_icon_url log) =
            Diagnostic ''Issue creation failed''
          \<longleftrightarrow> (success res
                \<and> (\<exists>d. data res = JDict d \<and> mutation_declined (dict_get d ''issueCreate'')))
              \<or> (\<not> success res \<and> error res = Some ''Issue creation failed'')"
    unfolding out
    by (auto simp: error_or_eq_iff mutation_declined_def split: json.splits sum.splits)
next
  assume "truthy (JDict (update_issue_input new_title description state_id assignee_id priority
         label_ids cycle_id project_id estimate))
      \<and> graphql bi tr issue_update_query
          (Some [(''id'', JStr issue_id),
                 (''input'', JDict (update_issue_input new_title description state_id
                    assignee_id priority label_ids cycle_id project_id estimate))]) None log =
          (res, log')"
  then have out: "linear_update_issue bi tr issue_id new_title description state_id assignee_id
           priority label_ids cycle_id project_id estimate log =
         (if \<not> success res
          then Diagnostic (error_or (error res) ''Failed to update issue'')
          else case data res of
                 JDict d \<Rightarrow>
                   if mutation_declined (dict_get d ''issueUpdate'')
                   then Diagnostic ''Issue update failed''
                   else (case dict_get d ''issueUpdate'' of
                           JDict payload \<Rightarrow>
                             (case dict_get payload ''issue'' of
                                JDict issue_data \<Rightarrow>
                                  (case parse_issue bi issue_data of
                                     Inl e \<Rightarrow> Raised e
                                   | Inr issue \<Rightarrow> Returned issue)
                              | _ \<Rightarrow> Diagnostic ''No issue in response'')
                         | _ \<Rightarrow> Diagnostic ''Issue update failed'')
               | _ \<Rightarrow> Diagnostic ''Unexpected response'',
          log')"
    using update_issue_outcome by blast
  {
    assume "success res \<and> (\<exists>d. data res = JDict d \<and> mutation_declined (dict_get d ''issueUpdate''))"
    then show "linear_update_issue bi tr issue_id new_title description state_id assignee_id
           priority label_ids cycle_id project_id estimate log =
           (Diagnostic ''Issue update failed'', log')"
      unfolding out by auto
  }
  show "fst (linear_update_issue bi tr issue_id new_title description state_id assignee_id
                priority label_ids cycle_id project_id estimate log) =
            Diagnostic ''Issue update failed''
          \<longleftrightarrow> (success res
                \<and> (\<exists>d. data res = JDict d \<and> mutation_declined (dict_get d ''issueUpdate'')))
              \<or> (\<not> success res \<and> error res = Some ''Issue update failed'')"
    unfolding out
    by (auto simp: error_or_eq_iff mutation_declined_def split: json.splits sum.splits)
qed

theorem mutation_declared_failure_witness:
  "fst (linear_create_issue plain_builtins
         (fixed_transport (ok_reply (JDict [(''data'',
            JDict [(''issueCreate'', JDict [(''success'', JBool False)])])])))
         ''team-1'' ''Title'' None None None None None None None None None None []) =
     Diagnostic ''Issue creation failed''
   \<and> fst (linear_update_issue plain_builtins
         (fixed_transport (ok_reply (JDict [(''data'',
            JDict [(''issueUpdate'', JDict [(''success'', JBool False)])])])))
         ''ENG-1'' (Some ''Title'') None None None None None None None None []) =
     Diagnostic ''Issue update failed''"
proof -
  let ?D1 = "[(''issueCreate'', JDict [(''success'', JBool False)])]"
  let ?D2 = "[(''issueUpdate'', JDict [(''success'', JBool False)])]"
  let ?T1 = "fixed_transport (ok_reply (JDict [(''data'', JDict ?D1)]))"
  let ?T2 = "fixed_transport (ok_reply (JDict [(''data'', JDict ?D2)]))"
  let ?res1 = "\<lparr>success = True, data = JDict ?D1, error = None\<rparr>"
  let ?res2 = "\<lparr>success = True, data = JDict ?D2, error = None\<rparr>"
  let ?v1 = "Some [(''input'', JDict (create_issue_input ''team-1'' ''Title'' None None None
               None None None None None None None))]"
  let ?v2 = "Some [(''id'', JStr ''ENG-1''), (''input'', JDict (update_issue_input (Some ''Title'')
               None None None None None None None None))]"
  have g1: "graphql plain_builtins ?T1 issue_create_query ?v1 None [] =
              (?res1, [] @ [(linear, graphql_request issue_create_query ?v1 None)])"
    by (simp add: graphql_result fixed_transport_def ok_reply_def graphql_outcome_def dict_get_def)
  have g2: "graphql plain_builtins ?T2 issue_update_query ?v2 None [] =
              (?res2, [] @ [(linear, graphql_request issue_update_query ?v2 None)])"
    by (simp add: graphql_result fixed_transport_def ok_reply_def graphql_outcome_def dict_get_def)
  have m1: "success ?res1 \<and> (\<exists>d. data ?res1 = JDict d \<and> mutation_declined (dict_get d ''issueCreate''))"
    by (simp add: mutation_declined_def dict_get_def)
  have m2: "success ?res2 \<and> (\<exists>d. data ?res2 = JDict d \<and> mutation_declined (dict_get d ''issueUpdate''))"
    by (simp add: mutation_declined_def dict_get_def)
  have u: "truthy (JDict (update_issue_input (Some ''Title'') None None None None None None None None))"
    by (simp add: update_issue_input_def set_if_given_def)
  have a: "fst (linear_create_issue plain_builtins ?T1 ''team-1'' ''Title'' None None None None
             None None None None None None []) = Diagnostic ''Issue creation failed''"
    using mutation_declared_failure
            [where tr = ?T1 and bi = plain_builtins and log = "[]" and team_id = "''team-1''"
               and title = "''Title''" and description = None and assignee_id = None
               and state_id = None and priority = None and label_ids = None and cycle_id = None
               and project_id = None and estimate = None and create_as_user = None
               and display_icon_url = None and res = ?res1
               and log' = "[] @ [(linear, graphql_request issue_create_query ?v1 None)]"]
          g1 m1
    by blast
  have b: "fst (linear_update_issue plain_builtins ?T2 ''ENG-1'' (Some ''Title'') None None None
             None None None None None []) = Diagnostic ''Issue update failed''"
    using mutation_declared_failure
            [where tr = ?T2 and bi = plain_builtins and log = "[]" and issue_id = "''ENG-1''"
               and new_title = "Some ''Title''" and description = None and assignee_id = None
               and state_id = None and priority = None and label_ids = None and cycle_id = None
               and project_id = None and estimate = None and res = ?res2
               and log' = "[] @ [(linear, graphql_request issue_update_query ?v2 None)]"]
          g2 m2 u
    by blast
  show ?thesis using a b by simp
qed

text \<open>
  C10. Called with every optional field absent, \<open>linear_update_issue\<close> returns exactly
  \<open>No fields to update\<close> and leaves the list of sent requests as it was: nothing is
  dispatched.
\<close>

theorem update_issue_no_fields:
  "linear_update_issue bi tr issue_id None None None None None None None None None log =
     (Diagnostic ''No fields to update'', log)"
  by (simp add: linear_update_issue_def update_issue_input_def set_if_given_def)

end
